theory Spec2Isabelle
  imports Complex_Main "HOL-Library.Sublist" "HOL-Library.Multiset"
begin

section \<open>Strings\<close>

text \<open>
  A JavaScript string is modelled as a \<^typ>\<open>string\<close>: a list of 8-bit characters, a glyph
  beyond ASCII being the bytes of its UTF-8 encoding. The string operations below are
  exact on ASCII text; case mapping and white space beyond ASCII are outside the model.
\<close>

text \<open>\<^verbatim>\<open>s.toLowerCase()\<close>, on ASCII letters.\<close>

definition toLowerCase_char :: "char \<Rightarrow> char" where
  "toLowerCase_char c =
     (let n = (of_char c :: nat) in if 65 \<le> n \<and> n \<le> 90 then char_of (n + 32) else c)"

definition toLowerCase :: "string \<Rightarrow> string" where
  "toLowerCase s = map toLowerCase_char s"

text \<open>\<^verbatim>\<open>s.includes(k)\<close>: \<open>k\<close> occurs in \<open>s\<close> as a contiguous substring.\<close>

fun includes_str :: "string \<Rightarrow> string \<Rightarrow> bool" where
  "includes_str [] k = (k = [])"
| "includes_str (c # cs) k = (prefix k (c # cs) \<or> includes_str cs k)"

text \<open>\<^verbatim>\<open>s.split(sep)\<close> for a separator of one character; the result is never empty.\<close>

fun split_on :: "char \<Rightarrow> string \<Rightarrow> string list" where
  "split_on sep [] = [[]]"
| "split_on sep (c # cs) =
     (if c = sep then [] # split_on sep cs
      else (case split_on sep cs of
              [] \<Rightarrow> [[c]]
            | p # ps \<Rightarrow> (c # p) # ps))"



section \<open>Spotify embed URLs\<close>

text \<open>
  The two components of a parsed \<^verbatim>\<open>URL\<close> object that the code reads. The constructor
  \<^verbatim>\<open>new URL(url)\<close> belongs to the browser, not to this program: it is a parameter
  \<open>new_URL\<close> of the model, \<open>None\<close> standing for the exception it throws on a string
  that is not a URL.
\<close>

record URL =
  hostname :: string
  pathname :: string

text \<open>\<^verbatim>\<open>u.pathname.split("/").filter(Boolean)\<close>: the non-empty segments of the path.\<close>

definition path_segments :: "URL \<Rightarrow> string list" where
  "path_segments u = filter (\<lambda>p. p \<noteq> []) (split_on CHR ''/'' (pathname u))"

text \<open>
  \<^verbatim>\<open>toSpotifyEmbed(url)\<close>. The \<^verbatim>\<open>try\<close> block covers the whole body, so that the only
  exception possible (that of the constructor) becomes the result \<^verbatim>\<open>null\<close>, here
  \<open>None\<close>.
\<close>

definition toSpotifyEmbed :: "(string \<Rightarrow> URL option) \<Rightarrow> string \<Rightarrow> string option" where
  "toSpotifyEmbed new_URL url =
     (case new_URL url of
        None \<Rightarrow> None
      | Some u \<Rightarrow>
          if includes_str (hostname u) ''open.spotify.com'' then
            (let parts = path_segments u in
               if length parts \<ge> 2 then
                 (let type_seg = parts ! 0;
                      id_seg = hd (split_on CHR ''?'' (parts ! 1))
                  in Some (''https://open.spotify.com/embed/'' @ type_seg @ ''/'' @ id_seg))
               else None)
          else None)"




section \<open>JavaScript values\<close>

text \<open>
  The exceptions the program can meet: a \<^verbatim>\<open>TypeError\<close> (a property of \<^verbatim>\<open>null\<close>, a call
  of something that is not a function, an object with no primitive value), the
  \<^verbatim>\<open>SyntaxError\<close> of a body that is not JSON, and a rejected \<^verbatim>\<open>fetch\<close>.
\<close>

datatype error = TypeError | SyntaxError | NetworkError

text \<open>
  Numbers are exact rationals, with \<^verbatim>\<open>NaN\<close> apart. The rounding of doubles and the
  infinities (a literal beyond the double range) are outside the model.
\<close>

datatype jsnum = NaN | Fin rat

text \<open>
  A value parsed from JSON. \<open>JObj\<close> lists the object's own properties in enumeration
  order; a look-up takes the first pair of the key.
\<close>

datatype json =
    JNull
  | JBool bool
  | JNum rat
  | JStr string
  | JArr "json list"
  | JObj "(string \<times> json) list"

text \<open>
  A value that the program can hold in the emoji slot: JSON data, or what the look-up
  \<^verbatim>\<open>EMOJI[m]\<close> inherits from \<^verbatim>\<open>Object.prototype\<close> (the function \<^verbatim>\<open>Object\<close> under the key
  \<^verbatim>\<open>constructor\<close>, the prototype object under \<^verbatim>\<open>__proto__\<close>), or the wrapper object that
  \<^verbatim>\<open>Object(v)\<close> makes of a primitive \<open>v\<close>.
\<close>

datatype jsval = Data json | ObjectConstructor | ObjectPrototype | Wrapped json

fun truthy :: "json \<Rightarrow> bool" where
  "truthy JNull = False"
| "truthy (JBool b) = b"
| "truthy (JNum x) = (x \<noteq> 0)"
| "truthy (JStr s) = (s \<noteq> [])"
| "truthy (JArr xs) = True"
| "truthy (JObj kvs) = True"

text \<open>\<^verbatim>\<open>x || d\<close>, where \<open>x\<close> is the value of a property, \<open>None\<close> when it is
  \<^verbatim>\<open>undefined\<close>.\<close>

definition or_default :: "json option \<Rightarrow> json \<Rightarrow> json" where
  "or_default x d = (case x of None \<Rightarrow> d | Some v \<Rightarrow> if truthy v then v else d)"

text \<open>
  \<^verbatim>\<open>v.k\<close> for the property names the program reads (\<^verbatim>\<open>mood\<close>, \<^verbatim>\<open>emoji\<close>,
  \<^verbatim>\<open>confidence\<close>, \<^verbatim>\<open>playlist\<close>, \<^verbatim>\<open>probs\<close>, \<^verbatim>\<open>title\<close>), none of which a prototype
  provides: the own property of an object, \<^verbatim>\<open>undefined\<close> on any other value, a
  \<^verbatim>\<open>TypeError\<close> on \<^verbatim>\<open>null\<close>.
\<close>

fun get_prop :: "json \<Rightarrow> string \<Rightarrow> error + json option" where
  "get_prop JNull k = Inl TypeError"
| "get_prop (JObj kvs) k = Inr (map_of kvs k)"
| "get_prop (JBool b) k = Inr None"
| "get_prop (JNum x) k = Inr None"
| "get_prop (JStr s) k = Inr None"
| "get_prop (JArr xs) k = Inr None"

text \<open>
  \<^verbatim>\<open>Number(v)\<close>, and the conversion that \<^verbatim>\<open>Math.min\<close> and the operator \<^verbatim>\<open>-\<close> apply to
  an argument. The conversion of a string (its numeric literal) and of an array (the
  literal of its elements joined by commas) is the language's, not this program's: it is
  the parameter \<open>conv\<close>. A plain object converts through \<^verbatim>\<open>valueOf\<close> and \<^verbatim>\<open>toString\<close>:
  to \<^verbatim>\<open>NaN\<close> by the inherited \<^verbatim>\<open>toString\<close>, and with a \<^verbatim>\<open>TypeError\<close> when an own
  property \<^verbatim>\<open>toString\<close> (never a function in JSON data) hides the inherited one.
\<close>

fun ToNumber :: "(json \<Rightarrow> error + jsnum) \<Rightarrow> json \<Rightarrow> error + jsnum" where
  "ToNumber conv JNull = Inr (Fin 0)"
| "ToNumber conv (JBool b) = Inr (Fin (if b then 1 else 0))"
| "ToNumber conv (JNum x) = Inr (Fin x)"
| "ToNumber conv (JStr s) = conv (JStr s)"
| "ToNumber conv (JArr xs) = conv (JArr xs)"
| "ToNumber conv (JObj kvs) =
     (if map_of kvs ''toString'' \<noteq> None then Inl TypeError else Inr NaN)"

text \<open>
  An instance of \<open>conv\<close> for closed examples: the conversion of the strings and arrays
  that hold no numeric literal, which all give \<^verbatim>\<open>NaN\<close>. The examples below never
  convert a string or an array.
\<close>

definition conv_NaN :: "json \<Rightarrow> error + jsnum" where
  "conv_NaN v = Inr NaN"

fun js_times :: "jsnum \<Rightarrow> jsnum \<Rightarrow> jsnum" where
  "js_times (Fin a) (Fin b) = Fin (a * b)"
| "js_times _ _ = NaN"



text \<open>\<^verbatim>\<open>Math.round\<close>: the nearest integer, a tie going up.\<close>

fun Math_round :: "jsnum \<Rightarrow> jsnum" where
  "Math_round (Fin a) = Fin (of_int \<lfloor>a + 1 / 2\<rfloor>)"
| "Math_round NaN = NaN"

text \<open>The decimal numeral of an index, as a template literal prints it.\<close>

fun show_nat :: "nat \<Rightarrow> string" where
  "show_nat n =
     (if n < 10 then [char_of (48 + n)]
      else show_nat (n div 10) @ [char_of (48 + n mod 10)])"

section \<open>Static tables\<close>

definition API :: string where
  "API = ''http://127.0.0.1:8000''"

text \<open>The table \<^verbatim>\<open>EMOJI\<close>; each glyph is its UTF-8 bytes.\<close>

definition EMOJI :: "(string \<times> string) list" where
  "EMOJI =
     [(''happy'', [CHR 0xF0, CHR 0x9F, CHR 0x98, CHR 0x83]),
      (''positive'', [CHR 0xF0, CHR 0x9F, CHR 0x98, CHR 0x83]),
      (''excited'', [CHR 0xF0, CHR 0x9F, CHR 0x94, CHR 0xA5]),
      (''calm'', [CHR 0xF0, CHR 0x9F, CHR 0x98, CHR 0xB4]),
      (''romantic'', [CHR 0xF0, CHR 0x9F, CHR 0x92, CHR 0x96]),
      (''lonely'', [CHR 0xF0, CHR 0x9F, CHR 0x98, CHR 0x94]),
      (''motivated'', [CHR 0xF0, CHR 0x9F, CHR 0x92, CHR 0xAA]),
      (''sad'', [CHR 0xF0, CHR 0x9F, CHR 0x98, CHR 0xA2]),
      (''angry'', [CHR 0xF0, CHR 0x9F, CHR 0x98, CHR 0xA1]),
      (''fear'', [CHR 0xF0, CHR 0x9F, CHR 0x98, CHR 0xA8]),
      (''surprise'', [CHR 0xF0, CHR 0x9F, CHR 0x98, CHR 0xB2]),
      (''disgust'', [CHR 0xF0, CHR 0x9F, CHR 0xA4, CHR 0xA2]),
      (''neutral'', [CHR 0xF0, CHR 0x9F, CHR 0x98, CHR 0x90])]"

text \<open>The headphones glyph, the default emoji.\<close>

definition headphones :: string where
  "headphones = [CHR 0xF0, CHR 0x9F, CHR 0x8E, CHR 0xA7]"

text \<open>
  \<^verbatim>\<open>EMOJI[m]\<close> for a lowercased label \<open>m\<close>: an own entry of the table, or one of the two
  properties with a name free of capital letters that the table inherits from
  \<^verbatim>\<open>Object.prototype\<close>; \<open>None\<close> is \<^verbatim>\<open>undefined\<close>. All of these values are truthy.
\<close>

definition EMOJI_get :: "string \<Rightarrow> jsval option" where
  "EMOJI_get m =
     (case map_of EMOJI m of
        Some g \<Rightarrow> Some (Data (JStr g))
      | None \<Rightarrow>
          if m = ''constructor'' then Some ObjectConstructor
          else if m = ''__proto__'' then Some ObjectPrototype
          else None)"


section \<open>The confidence chart\<close>












section \<open>Application state\<close>

datatype origin = Camera | Upload | Text

datatype Mode = Mode_all | Mode_focus | Mode_chill | Mode_workout

text \<open>The type \<^verbatim>\<open>HistoryRow\<close>, with the values the code really stores in each field.\<close>

record HistoryRow =
  h_when :: string
  h_mood :: string
  h_emoji :: jsval
  h_confidence :: jsnum
  h_from :: origin
  h_title :: "json option"

text \<open>
  The state of \<^verbatim>\<open>App\<close> that the analysis functions read and write (\<open>text_input\<close> is
  the source's \<^verbatim>\<open>text\<close>, \<open>plist\<close> its \<^verbatim>\<open>list\<close>). A toast stays until the next one: the
  timer that clears it is not modelled.
\<close>

record App =
  text_input :: string
  loading :: bool
  toast :: "string option"
  mood :: string
  emoji :: jsval
  conf :: jsnum
  plist :: "json list"
  mode :: Mode
  probs :: "json option"
  history :: "HistoryRow list"

definition showToast :: "string \<Rightarrow> App \<Rightarrow> App" where
  "showToast msg st = st\<lparr>toast := Some msg\<rparr>"

text \<open>
  The history initialiser:
  \<^verbatim>\<open>try { return JSON.parse(localStorage.getItem("mood_history") || "[]"); } catch { return []; }\<close>.
  \<open>stored\<close> is what \<^verbatim>\<open>getItem\<close> returns (\<open>None\<close> for \<^verbatim>\<open>null\<close>); \<^verbatim>\<open>JSON.parse\<close> is the
  language's, a parameter, \<open>None\<close> standing for its \<^verbatim>\<open>SyntaxError\<close>.
\<close>

definition load_history :: "(string \<Rightarrow> json option) \<Rightarrow> string option \<Rightarrow> json" where
  "load_history JSON_parse stored =
     (case JSON_parse (case stored of
                         None \<Rightarrow> ''[]''
                       | Some s \<Rightarrow> if s = [] then ''[]'' else s) of
        None \<Rightarrow> JArr []
      | Some v \<Rightarrow> v)"

text \<open>
  An instance of \<open>JSON_parse\<close> for closed examples: \<^verbatim>\<open>JSON.parse\<close> on the five texts
  below. On every other text the function gives \<open>None\<close>, which is what the language
  does for the corrupt texts of the examples and says nothing about the others.
\<close>

definition JSON_parse_atoms :: "string \<Rightarrow> json option" where
  "JSON_parse_atoms s =
     (if s = ''[]'' then Some (JArr [])
      else if s = ''{}'' then Some (JObj [])
      else if s = ''null'' then Some JNull
      else if s = ''true'' then Some (JBool True)
      else if s = ''false'' then Some (JBool False)
      else None)"

section \<open>Normalising a response\<close>

text \<open>\<^verbatim>\<open>(j.mood || "").toLowerCase()\<close>: a truthy label that is not a string has no
  method \<^verbatim>\<open>toLowerCase\<close>.\<close>

definition mood_label :: "json \<Rightarrow> error + string" where
  "mood_label j =
     (case get_prop j ''mood'' of
        Inl e \<Rightarrow> Inl e
      | Inr x \<Rightarrow>
          (case or_default x (JStr []) of
             JStr s \<Rightarrow> Inr (toLowerCase s)
           | _ \<Rightarrow> Inl TypeError))"

text \<open>A property of a response that is known not to be \<^verbatim>\<open>null\<close>.\<close>

definition field :: "json \<Rightarrow> string \<Rightarrow> json option" where
  "field j k = (case get_prop j k of Inl e \<Rightarrow> None | Inr x \<Rightarrow> x)"

text \<open>\<^verbatim>\<open>p?.[0]\<close> on a value that is neither \<^verbatim>\<open>null\<close> nor \<^verbatim>\<open>undefined\<close>.\<close>

fun index0 :: "json \<Rightarrow> json option" where
  "index0 (JArr xs) = (case xs of [] \<Rightarrow> None | x # _ \<Rightarrow> Some x)"
| "index0 (JStr s) = (case s of [] \<Rightarrow> None | c # _ \<Rightarrow> Some (JStr [c]))"
| "index0 (JObj kvs) = map_of kvs ''0''"
| "index0 JNull = None"
| "index0 (JBool b) = None"
| "index0 (JNum x) = None"

text \<open>\<^verbatim>\<open>j.playlist?.[0]?.title\<close>.\<close>

definition first_title :: "json \<Rightarrow> json option" where
  "first_title j =
     (case field j ''playlist'' of
        None \<Rightarrow> None
      | Some p \<Rightarrow>
          (case index0 p of
             None \<Rightarrow> None
           | Some it \<Rightarrow> field it ''title''))"

text \<open>
  The values that \<^verbatim>\<open>updateResults\<close> computes from the response: the locals \<^verbatim>\<open>m\<close>, \<^verbatim>\<open>e\<close>
  and \<^verbatim>\<open>c\<close>, and the arguments of \<^verbatim>\<open>setList\<close> and \<^verbatim>\<open>setProbs\<close>.
\<close>

record Normalized =
  n_mood :: string
  n_emoji :: jsval
  n_conf :: jsnum
  n_list :: "json list"
  n_probs :: "json option"

definition normalize_response :: "(json \<Rightarrow> error + jsnum) \<Rightarrow> json \<Rightarrow> error + Normalized" where
  "normalize_response conv j =
     (case mood_label j of
        Inl err \<Rightarrow> Inl err
      | Inr m \<Rightarrow>
          (let e = (case field j ''emoji'' of
                      None \<Rightarrow> (case EMOJI_get m of None \<Rightarrow> Data (JStr headphones) | Some g \<Rightarrow> g)
                    | Some v \<Rightarrow>
                        if truthy v then Data v
                        else (case EMOJI_get m of None \<Rightarrow> Data (JStr headphones) | Some g \<Rightarrow> g))
           in case ToNumber conv (or_default (field j ''confidence'') (JNum 0)) of
                Inl err \<Rightarrow> Inl err
              | Inr c \<Rightarrow>
                  Inr \<lparr>n_mood = m, n_emoji = e, n_conf = c,
                       n_list = (case field j ''playlist'' of Some (JArr xs) \<Rightarrow> xs | _ \<Rightarrow> []),
                       n_probs = (case field j ''probs'' of
                                    None \<Rightarrow> None
                                  | Some p \<Rightarrow> if truthy p then Some p else None)\<rparr>))"

text \<open>
  A state setter of React handed a function calls it on the previous state: \<^verbatim>\<open>setEmoji\<close>
  handed the inherited \<^verbatim>\<open>Object\<close> stores \<^verbatim>\<open>Object(previous)\<close>.
\<close>

fun Object_call :: "jsval \<Rightarrow> jsval" where
  "Object_call (Data JNull) = Data (JObj [])"
| "Object_call (Data (JBool b)) = Wrapped (JBool b)"
| "Object_call (Data (JNum x)) = Wrapped (JNum x)"
| "Object_call (Data (JStr s)) = Wrapped (JStr s)"
| "Object_call v = v"

definition setEmoji :: "jsval \<Rightarrow> App \<Rightarrow> App" where
  "setEmoji e st = st\<lparr>emoji := (if e = ObjectConstructor then Object_call (emoji st) else e)\<rparr>"

text \<open>
  \<^verbatim>\<open>updateResults(j, from)\<close>: \<open>now\<close> is the time string that
  \<^verbatim>\<open>new Date().toLocaleTimeString()\<close> gives. Every exception comes before the first
  setter. The confetti of \<^verbatim>\<open>pulse\<close> touches the document only and is not modelled.
  \<open>new_row\<close> is the entry put in front of the history.
\<close>

definition new_row :: "string \<Rightarrow> Normalized \<Rightarrow> origin \<Rightarrow> json \<Rightarrow> HistoryRow" where
  "new_row now n from_tag j =
     \<lparr>h_when = now,
      h_mood = (if n_mood n = [] then ''neutral'' else n_mood n),
      h_emoji = n_emoji n,
      h_confidence = n_conf n,
      h_from = from_tag,
      h_title = first_title j\<rparr>"

definition updateResults ::
  "(json \<Rightarrow> error + jsnum) \<Rightarrow> string \<Rightarrow> json \<Rightarrow> origin \<Rightarrow> App \<Rightarrow> error + App" where
  "updateResults conv now j from_tag st =
     (case normalize_response conv j of
        Inl err \<Rightarrow> Inl err
      | Inr n \<Rightarrow>
          Inr ((setEmoji (n_emoji n) (st\<lparr>mood := n_mood n\<rparr>))
                 \<lparr>conf := n_conf n,
                  plist := n_list n,
                  probs := n_probs n,
                  history := take 8 (new_row now n from_tag j # history st)\<rparr>))"

text \<open>
  A series of calls of \<^verbatim>\<open>updateResults\<close>, each with its time, response and origin. A
  call that throws leaves the results as they were: both callers catch the exception.
\<close>

fun update_all ::
  "(json \<Rightarrow> error + jsnum) \<Rightarrow> (string \<times> json \<times> origin) list \<Rightarrow> App \<Rightarrow> App" where
  "update_all conv [] st = st"
| "update_all conv ((now, j, from_tag) # calls) st =
     update_all conv calls
       (case updateResults conv now j from_tag st of Inl e \<Rightarrow> st | Inr st' \<Rightarrow> st')"

section \<open>Backend calls\<close>

text \<open>
  A request as \<^verbatim>\<open>fetch\<close> sends it. A form body lists its parts: field name, blob, file
  name. Blobs are opaque, of any type \<open>'b\<close>.
\<close>

datatype 'b body = JsonBody json | FormData "(string \<times> 'b \<times> string) list"

record 'b request =
  req_url :: string
  req_method :: string
  req_headers :: "(string \<times> string) list"
  req_body :: "'b body"

text \<open>
  What the network answers: \<open>Rejected\<close> when \<^verbatim>\<open>fetch\<close> rejects (no connection), or a
  response with its HTTP status and its body as \<^verbatim>\<open>res.json()\<close> reads it, \<open>None\<close> when the
  body is not JSON and \<^verbatim>\<open>res.json()\<close> rejects. \<^verbatim>\<open>fetch\<close> resolves whatever the status is.
\<close>

datatype response = Rejected | Response nat "json option"

text \<open>The body of a \<^verbatim>\<open>try\<close> block: await the response, read its JSON, update.\<close>

definition receive ::
  "(json \<Rightarrow> error + jsnum) \<Rightarrow> string \<Rightarrow> response \<Rightarrow> origin \<Rightarrow> App \<Rightarrow> error + App" where
  "receive conv now r from_tag st =
     (case r of
        Rejected \<Rightarrow> Inl NetworkError
      | Response status b \<Rightarrow>
          (case b of
             None \<Rightarrow> Inl SyntaxError
           | Some j \<Rightarrow> updateResults conv now j from_tag st))"



definition images_request :: "'b list \<Rightarrow> 'b request" where
  "images_request blobs =
     \<lparr>req_url = API @ ''/api/predict/images'', req_method = ''POST'', req_headers = [],
      req_body = FormData (map (\<lambda>(i, b). (''files'', b, ''frame'' @ show_nat i @ ''.jpg''))
                              (enumerate 0 blobs))\<rparr>"

definition image_request :: "'b \<Rightarrow> 'b request" where
  "image_request b =
     \<lparr>req_url = API @ ''/api/predict/image'', req_method = ''POST'', req_headers = [],
      req_body = FormData [(''file'', b, ''frame0.jpg'')]\<rparr>"

text \<open>\<^verbatim>\<open>analyzeImagesBlobs(blobs, from)\<close>: the new state and the requests made, in order.\<close>

definition analyzeImagesBlobs ::
  "(json \<Rightarrow> error + jsnum) \<Rightarrow> string \<Rightarrow> ('b request \<Rightarrow> response) \<Rightarrow> 'b list \<Rightarrow> origin \<Rightarrow> App
     \<Rightarrow> App \<times> 'b request list" where
  "analyzeImagesBlobs conv now net blobs from_tag st =
     (let req = images_request blobs;
          st1 = st\<lparr>loading := True\<rparr>
      in case receive conv now (net req) from_tag st1 of
           Inr st' \<Rightarrow> (st'\<lparr>loading := False\<rparr>, [req])
         | Inl e \<Rightarrow>
             (case blobs of
                [] \<Rightarrow> ((showToast ''Failed to analyze image'' st1)\<lparr>loading := False\<rparr>, [req])
              | b0 # _ \<Rightarrow>
                  (let req2 = image_request b0;
                       st2 = (case receive conv now (net req2) from_tag st1 of
                                Inl e2 \<Rightarrow> showToast ''Failed to analyze image'' st1
                              | Inr st' \<Rightarrow> st')
                   in (st2\<lparr>loading := False\<rparr>, [req, req2]))))"

text \<open>
  Three networks for closed examples: one where every request fails in transport, one
  where the server answers every request with the status 500 and a JSON body that
  describes the failure, one where it answers every request with the status 200 and a
  mood.
\<close>

definition net_happy :: "'b request \<Rightarrow> response" where
  "net_happy r =
     Response 200 (Some (JObj [(''mood'', JStr ''happy''), (''confidence'', JNum (9 / 10))]))"

definition net_down :: "'b request \<Rightarrow> response" where
  "net_down r = Rejected"

definition net_server_error :: "'b request \<Rightarrow> response" where
  "net_server_error r = Response 500 (Some (JObj [(''detail'', JStr ''Internal Server Error'')]))"

section \<open>Rendering the results\<close>







text \<open>
  What the results section shows of the confidence: \<open>None\<close> while the mood is empty
  (the placeholder text stands there instead), else the percentage
  \<^verbatim>\<open>Math.round(conf * 100)\<close> of the bar and of its caption.
\<close>

definition confidence_shown :: "App \<Rightarrow> jsnum option" where
  "confidence_shown st =
     (if mood st = [] then None else Some (Math_round (js_times (conf st) (Fin 100))))"


text \<open>The state of \<^verbatim>\<open>App\<close> when it mounts, with the history that was loaded.\<close>

definition initial_App :: "HistoryRow list \<Rightarrow> App" where
  "initial_App h =
     \<lparr>text_input = [], loading = False, toast = None, mood = [],
      emoji = Data (JStr headphones), conf = Fin 0, plist = [], mode = Mode_all, probs = None,
      history = h\<rparr>"

section \<open>Properties\<close>

subsection \<open>Auxiliary facts\<close>















lemma updateResults_history:
  "updateResults conv now j tag st = Inr st' \<Longrightarrow>
   \<exists>n. normalize_response conv j = Inr n \<and> history st' = new_row now n tag j # take 7 (history st)"
  by (auto simp: updateResults_def setEmoji_def split: sum.splits)

lemma updateResults_length:
  "updateResults conv now j tag st = Inr st' \<Longrightarrow> length (history st') \<le> 8"
  by (auto dest!: updateResults_history)

lemma update_all_length:
  "length (history st) \<le> 8 \<Longrightarrow> length (history (update_all conv calls st)) \<le> 8"
proof (induction calls arbitrary: st)
  case Nil
  then show ?case by simp
next
  case (Cons c calls)
  obtain now j tag where c: "c = (now, j, tag)" by (cases c)
  show ?case
  proof (cases "updateResults conv now j tag st")
    case (Inl e)
    with Cons c show ?thesis by simp
  next
    case (Inr st')
    then have "length (history st') \<le> 8" by (rule updateResults_length)
    with Cons.IH Inr c show ?thesis by simp
  qed
qed

lemma receive_fails:
  "(\<exists>e. receive conv now r tag st = Inl e) \<longleftrightarrow>
     (r = Rejected \<or> (\<exists>status. r = Response status None)
      \<or> (\<exists>status j err. r = Response status (Some j) \<and> normalize_response conv j = Inl err))"
  by (auto simp: receive_def updateResults_def split: response.splits option.splits sum.splits)



subsection \<open>The claims\<close>

text \<open>
  C1 (as amended). Whenever the request to \<^verbatim>\<open>/api/predict/images\<close> throws (the fetch is
  rejected in transport, or the body of the response is not JSON, or the parsed body
  makes \<^verbatim>\<open>updateResults\<close> throw) and there is at least one frame, exactly one more request
  is made: a POST to \<^verbatim>\<open>/api/predict/image\<close> whose form holds the first frame alone under
  the field \<^verbatim>\<open>file\<close>; there is no further retry. A response whose body is JSON that
  \<^verbatim>\<open>updateResults\<close> accepts is final whatever its HTTP status: no fallback request
  follows it.
\<close>

theorem analyzeImagesBlobs_fallback:
  "(blobs \<noteq> [] \<longrightarrow>
      (net (images_request blobs) = Rejected
       \<or> (\<exists>status. net (images_request blobs) = Response status None)
       \<or> (\<exists>status j err. net (images_request blobs) = Response status (Some j)
             \<and> normalize_response conv j = Inl err)) \<longrightarrow>
      snd (analyzeImagesBlobs conv now net blobs tag st)
        = [images_request blobs, image_request (hd blobs)])
   \<and> (net (images_request blobs) = Response status (Some j) \<longrightarrow> normalize_response conv j = Inr n \<longrightarrow>
        snd (analyzeImagesBlobs conv now net blobs tag st) = [images_request blobs])
   \<and> req_url (images_request blobs) = ''http://127.0.0.1:8000/api/predict/images''
   \<and> req_url (image_request b) = ''http://127.0.0.1:8000/api/predict/image''
   \<and> req_body (image_request b) = FormData [(''file'', b, ''frame0.jpg'')]"
proof (intro conjI impI)
  assume ne: "blobs \<noteq> []"
    and "net (images_request blobs) = Rejected
       \<or> (\<exists>status. net (images_request blobs) = Response status None)
       \<or> (\<exists>status j err. net (images_request blobs) = Response status (Some j)
             \<and> normalize_response conv j = Inl err)"
  then obtain e where
    "receive conv now (net (images_request blobs)) tag (st\<lparr>loading := True\<rparr>) = Inl e"
    using receive_fails [of conv now "net (images_request blobs)" tag "st\<lparr>loading := True\<rparr>"]
    by blast
  with ne show "snd (analyzeImagesBlobs conv now net blobs tag st)
        = [images_request blobs, image_request (hd blobs)]"
    by (cases blobs) (simp_all add: analyzeImagesBlobs_def Let_def)
next
  assume "net (images_request blobs) = Response status (Some j)" "normalize_response conv j = Inr n"
  then have "\<exists>st'. receive conv now (net (images_request blobs)) tag (st\<lparr>loading := True\<rparr>) = Inr st'"
    by (simp add: receive_def updateResults_def)
  then show "snd (analyzeImagesBlobs conv now net blobs tag st) = [images_request blobs]"
    by (auto simp: analyzeImagesBlobs_def Let_def)
next
  show "req_url (images_request blobs) = ''http://127.0.0.1:8000/api/predict/images''"
    by (simp add: images_request_def API_def)
next
  show "req_url (image_request b) = ''http://127.0.0.1:8000/api/predict/image''"
    by (simp add: image_request_def API_def)
next
  show "req_body (image_request b) = FormData [(''file'', b, ''frame0.jpg'')]"
    by (simp add: image_request_def)
qed

theorem analyzeImagesBlobs_fallback_witness:
  "snd (analyzeImagesBlobs conv_NaN ''10:00:09'' net_down [0 :: nat, 1, 2] Camera (initial_App []))
     = [images_request [0, 1, 2], image_request 0]
   \<and> snd (analyzeImagesBlobs conv_NaN ''10:00:09'' net_happy [0 :: nat, 1, 2] Camera (initial_App []))
     = [images_request [0, 1, 2]]"
proof -
  let ?blobs = "[0 :: nat, 1, 2]"
  let ?j = "JObj [(''mood'', JStr ''happy''), (''confidence'', JNum (9 / 10))]"
  have ne: "?blobs \<noteq> []" by simp
  have d: "net_down (images_request ?blobs) = Rejected" by (simp add: net_down_def)
  have h: "net_happy (images_request ?blobs) = Response 200 (Some ?j)" by (simp add: net_happy_def)
  have n: "normalize_response conv_NaN ?j = Inr (projr (normalize_response conv_NaN ?j))" by code_simp
  from analyzeImagesBlobs_fallback [where blobs = ?blobs and net = net_down and conv = conv_NaN
        and now = "''10:00:09''" and tag = Camera and st = "initial_App []", THEN conjunct1] ne d
  have down: "snd (analyzeImagesBlobs conv_NaN ''10:00:09'' net_down ?blobs Camera (initial_App []))
     = [images_request ?blobs, image_request (hd ?blobs)]"
    by blast
  from analyzeImagesBlobs_fallback [where blobs = ?blobs and net = net_happy and conv = conv_NaN
        and now = "''10:00:09''" and tag = Camera and st = "initial_App []" and status = 200
        and j = ?j and n = "projr (normalize_response conv_NaN ?j)", THEN conjunct2, THEN conjunct1] h n
  have happy: "snd (analyzeImagesBlobs conv_NaN ''10:00:09'' net_happy ?blobs Camera (initial_App []))
     = [images_request ?blobs]"
    by blast
  from down happy show ?thesis by simp
qed

text \<open>
  C1 as stated fails for a server failure that is reported in JSON: the server answers
  the batch request with the status 500 and the body \<^verbatim>\<open>{"detail": "Internal Server Error"}\<close>,
  three frames exist, and the batch request is the only request made.
\<close>

theorem analyzeImagesBlobs_server_failure_counterexample:
  "net_server_error (images_request [0 :: nat, 1, 2])
     = Response 500 (Some (JObj [(''detail'', JStr ''Internal Server Error'')]))
   \<and> snd (analyzeImagesBlobs conv_NaN ''10:00:09'' net_server_error [0 :: nat, 1, 2] Camera
          (initial_App []))
     = [images_request [0, 1, 2]]"
  by code_simp

text \<open>
  C2. The claim asks for a percentage between 0 and 100 whatever the confidence is.
  The results section shows \<^verbatim>\<open>Math.round(conf * 100)\<close> with no clamp: after the response
  \<^verbatim>\<open>{"mood": "happy", "confidence": 5}\<close> it shows 500 percent.
\<close>

theorem confidence_shown_unclamped:
  "map_sum id confidence_shown
     (updateResults conv_NaN ''10:00:09''
        (JObj [(''mood'', JStr ''happy''), (''confidence'', JNum 5)]) Camera (initial_App []))
   = Inr (Some (Fin 500))"
  by code_simp

text \<open>
  C3. Every call of \<^verbatim>\<open>updateResults\<close> that completes puts its new entry in front of the
  history and keeps the seven most recent of the entries before it: the new entry is
  first and the list has at most 8 entries, whatever the history was. Through any series
  of calls (a call that throws changes nothing) a history of at most 8 entries stays
  so.
\<close>

theorem history_capped_newest_first:
  "(updateResults conv now j tag st = Inr st' \<longrightarrow>
      (\<exists>n. normalize_response conv j = Inr n
         \<and> history st' = new_row now n tag j # take 7 (history st)
         \<and> hd (history st') = new_row now n tag j
         \<and> length (history st') \<le> 8))
   \<and> (length (history st) \<le> 8 \<longrightarrow> length (history (update_all conv calls st)) \<le> 8)"
proof (intro conjI impI)
  assume u: "updateResults conv now j tag st = Inr st'"
  then obtain n where n: "normalize_response conv j = Inr n"
      "history st' = new_row now n tag j # take 7 (history st)"
    using updateResults_history by blast
  then show "\<exists>n. normalize_response conv j = Inr n
         \<and> history st' = new_row now n tag j # take 7 (history st)
         \<and> hd (history st') = new_row now n tag j
         \<and> length (history st') \<le> 8"
    by auto
next
  assume "length (history st) \<le> 8"
  then show "length (history (update_all conv calls st)) \<le> 8"
    by (rule update_all_length)
qed

theorem history_capped_newest_first_witness:
  "length (history (projr (updateResults conv_NaN ''10:00:09''
       (JObj [(''mood'', JStr ''Happy''), (''confidence'', JNum (9 / 10))]) Camera
       (initial_App (replicate 8
          \<lparr>h_when = ''09:00:00'', h_mood = ''sad'', h_emoji = Data (JStr headphones),
           h_confidence = Fin (1 / 2), h_from = Text, h_title = None\<rparr>))))) \<le> 8
   \<and> h_when (hd (history (projr (updateResults conv_NaN ''10:00:09''
       (JObj [(''mood'', JStr ''Happy''), (''confidence'', JNum (9 / 10))]) Camera
       (initial_App (replicate 8
          \<lparr>h_when = ''09:00:00'', h_mood = ''sad'', h_emoji = Data (JStr headphones),
           h_confidence = Fin (1 / 2), h_from = Text, h_title = None\<rparr>)))))) = ''10:00:09''
   \<and> length (history (update_all conv_NaN
       (replicate 10 (''10:00:09'', JObj [(''mood'', JStr ''Happy'')], Upload))
       (initial_App []))) \<le> 8"
proof -
  let ?j = "JObj [(''mood'', JStr ''Happy''), (''confidence'', JNum (9 / 10))]"
  let ?st = "initial_App (replicate 8
          \<lparr>h_when = ''09:00:00'', h_mood = ''sad'', h_emoji = Data (JStr headphones),
           h_confidence = Fin (1 / 2), h_from = Text, h_title = None\<rparr>)"
  let ?r = "updateResults conv_NaN ''10:00:09'' ?j Camera ?st"
  have e: "?r = Inr (projr ?r)" by code_simp
  have l: "length (history (initial_App [])) \<le> 8" by (simp add: initial_App_def)
  from history_capped_newest_first [of conv_NaN "''10:00:09''" ?j Camera ?st "projr ?r"] e
  obtain n where n: "history (projr ?r) = new_row ''10:00:09'' n Camera ?j # take 7 (history ?st)"
      "length (history (projr ?r)) \<le> 8"
    by blast
  have w: "h_when (hd (history (projr ?r))) = ''10:00:09''"
    unfolding n(1) by (simp add: new_row_def)
  from history_capped_newest_first [of conv_NaN "''10:00:09''" ?j Camera "initial_App []" "projr ?r"
      "replicate 10 (''10:00:09'', JObj [(''mood'', JStr ''Happy'')], Upload)"] l
  have "length (history (update_all conv_NaN
       (replicate 10 (''10:00:09'', JObj [(''mood'', JStr ''Happy'')], Upload))
       (initial_App []))) \<le> 8"
    by blast
  with n(2) w show ?thesis by blast
qed






text \<open>
  C6. \<^verbatim>\<open>JSON.parse\<close> reads the text \<^verbatim>\<open>[]\<close> as the empty array. Then the history loaded is
  the empty list both when nothing is stored under the key and when the stored text is
  corrupt, that is when \<^verbatim>\<open>JSON.parse\<close> throws on it; the initialiser itself never throws.
\<close>

theorem load_history_safe:
  "JSON_parse ''[]'' = Some (JArr []) \<longrightarrow>
     load_history JSON_parse None = JArr []
     \<and> (JSON_parse s = None \<longrightarrow> load_history JSON_parse (Some s) = JArr [])"
  by (simp add: load_history_def)

theorem load_history_safe_witness:
  "load_history JSON_parse_atoms None = JArr []
   \<and> load_history JSON_parse_atoms (Some ''[{'') = JArr []
   \<and> load_history JSON_parse_atoms (Some '''') = JArr []"
proof -
  have a: "JSON_parse_atoms ''[]'' = Some (JArr [])" by code_simp
  have b: "JSON_parse_atoms ''[{'' = None" by code_simp
  have c: "JSON_parse_atoms '''' = None" by code_simp
  show ?thesis
    using load_history_safe [of JSON_parse_atoms "''[{''"]
      load_history_safe [of JSON_parse_atoms "''''"] a b c
    by simp
qed







text \<open>
  C10. \<^verbatim>\<open>toSpotifyEmbed\<close> is total: for every input string and every behaviour of the
  URL constructor (also when it throws) the function returns, and the result is either
  \<^verbatim>\<open>null\<close> or a string beginning with \<^verbatim>\<open>https://open.spotify.com/embed/\<close>.
\<close>

theorem toSpotifyEmbed_total:
  "toSpotifyEmbed new_URL url = None
   \<or> (\<exists>rest. toSpotifyEmbed new_URL url = Some (''https://open.spotify.com/embed/'' @ rest))"
  unfolding toSpotifyEmbed_def Let_def
  by (simp split: option.split del: append.simps)

end
